theory Spec2Isabelle
  imports Complex_Main "HOL-Library.AList" "HOL-Library.Sublist"
begin

section \<open>Errors\<close>

text \<open>
  The exceptions that \<^verbatim>\<open>abstract_round_abci/base.py\<close> raises, or that the Python
  runtime raises on its behalf. \<^verbatim>\<open>AddBlockError\<close> carries the two heights of its
  message \<^verbatim>\<open>expected height {expected}, got {actual}\<close>; the others carry their
  message, or the name of the attribute, key or keyword argument at fault. A message that
  formats a class is cut to its fixed words.
\<close>

datatype error =
    ValueError string
  | AddBlockError int int
  | TransactionNotValidError string
  | AttributeError string
  | KeyError string
  | TypeError string
  | ZeroDivisionError
  | OverflowError

section \<open>Payloads and transactions\<close>

text \<open>
  A payload object: the tag of its class (\<^verbatim>\<open>transaction_type.value\<close>), the sender and
  the dictionary returned by the \<^verbatim>\<open>data\<close> property. Python compares dictionaries
  without regard to order, which is equality of maps.
\<close>

record 'v payload =
  transaction_type :: string
  sender :: string
  data :: "string \<rightharpoonup> 'v"

record 'v transaction =
  payload :: "'v payload"
  signature :: string

section \<open>Block, Blockchain, BlockBuilder\<close>

text \<open>Of the header (not part of this module) only \<^verbatim>\<open>height\<close> is read.\<close>

record header =
  height :: int

record 'v block =
  header :: header
  transactions :: "'v transaction list"

record 'v blockchain =
  blocks :: "'v block list"

definition Blockchain_init :: "'v blockchain" where
  "Blockchain_init = \<lparr>blocks = []\<rparr>"

definition Blockchain_length :: "'v blockchain \<Rightarrow> int" where
  "Blockchain_length c = int (length (blocks c))"

definition Blockchain_height :: "'v blockchain \<Rightarrow> int" where
  "Blockchain_height c = Blockchain_length c + 1"

text \<open>
  A method that mutates its object returns the outcome (\<open>Inl\<close> the exception raised)
  together with the object as the call leaves it.
\<close>

definition Blockchain_add_block ::
  "'v blockchain \<Rightarrow> 'v block \<Rightarrow> (error + unit) \<times> 'v blockchain" where
  "Blockchain_add_block c b =
     (let expected_height = Blockchain_height c;
          actual_height = height (header b)
      in if expected_height \<noteq> actual_height
         then (Inl (AddBlockError expected_height actual_height), c)
         else (Inr (), c\<lparr>blocks := blocks c @ [b]\<rparr>))"

text \<open>
  A sequence of \<^verbatim>\<open>add_block\<close> calls on one chain, a failed call leaving the chain as
  it was; the number returned counts the calls that succeeded.
\<close>

fun add_blocks :: "'v blockchain \<Rightarrow> 'v block list \<Rightarrow> 'v blockchain \<times> nat" where
  "add_blocks c [] = (c, 0)"
| "add_blocks c (b # bs) =
     (case Blockchain_add_block c b of
        (Inl e, c') \<Rightarrow> add_blocks c' bs
      | (Inr u, c') \<Rightarrow> (case add_blocks c' bs of (c'', n) \<Rightarrow> (c'', Suc n)))"

record 'v block_builder =
  current_header :: "header option"
  current_transactions :: "'v transaction list"

definition BlockBuilder_reset :: "'v block_builder \<Rightarrow> 'v block_builder" where
  "BlockBuilder_reset bb = bb\<lparr>current_header := None, current_transactions := []\<rparr>"

text \<open>The constructor only calls \<^verbatim>\<open>reset\<close>.\<close>

definition BlockBuilder_init :: "'v block_builder" where
  "BlockBuilder_init = \<lparr>current_header = None, current_transactions = []\<rparr>"

definition BlockBuilder_header :: "'v block_builder \<Rightarrow> error + header" where
  "BlockBuilder_header bb =
     (case current_header bb of
        None \<Rightarrow> Inl (ValueError ''header not set'')
      | Some h \<Rightarrow> Inr h)"

definition BlockBuilder_set_header ::
  "'v block_builder \<Rightarrow> header \<Rightarrow> (error + unit) \<times> 'v block_builder" where
  "BlockBuilder_set_header bb h =
     (if current_header bb \<noteq> None
      then (Inl (ValueError ''header already set''), bb)
      else (Inr (), bb\<lparr>current_header := Some h\<rparr>))"

definition BlockBuilder_add_transaction ::
  "'v block_builder \<Rightarrow> 'v transaction \<Rightarrow> 'v block_builder" where
  "BlockBuilder_add_transaction bb t =
     bb\<lparr>current_transactions := current_transactions bb @ [t]\<rparr>"

definition BlockBuilder_get_block :: "'v block_builder \<Rightarrow> error + 'v block" where
  "BlockBuilder_get_block bb =
     (case BlockBuilder_header bb of
        Inl e \<Rightarrow> Inl e
      | Inr h \<Rightarrow> Inr \<lparr>header = h, transactions = current_transactions bb\<rparr>)"

section \<open>AbstractRound\<close>

text \<open>
  \<^verbatim>\<open>check_transaction\<close> and \<^verbatim>\<open>process_transaction\<close> find their handlers with
  \<^verbatim>\<open>getattr\<close> on the round, in the one namespace of its attributes, and call what they
  find with the payload. An attribute is modelled by that call: on the round in its current
  state and a payload it raises (\<open>Inl\<close>) or returns (\<open>Inr\<close> the truth value of what it
  returns, \<open>False\<close> for \<^verbatim>\<open>None\<close>), and leaves the round in some state.
\<close>

type_synonym ('r, 'v) attribute = "'r \<Rightarrow> 'v payload \<Rightarrow> (error + bool) \<times> 'r"

text \<open>
  \<^verbatim>\<open>AbstractRound\<close> is abstract: a concrete round class is the parameter \<open>cls\<close> of
  this model, over round objects of any type \<open>'r\<close>:
  \<^item> \<open>own_attrs cls r name\<close> is the attribute that the class or the object itself
    defines under \<open>name\<close> (\<open>None\<close> if it defines none): the handlers
    \<^verbatim>\<open>check_<tag>\<close> and \<^verbatim>\<open><tag>\<close>, and anything that overrides an inherited
    attribute;
  \<^item> \<open>round_end_block cls r\<close> is \<^verbatim>\<open>self.end_block()\<close>: \<open>None\<close>, or the result
    of the round and the next round (\<open>None\<close> when the period ends).
\<close>

record ('r, 'v, 'res) round_class =
  own_attrs :: "'r \<Rightarrow> string \<Rightarrow> ('r, 'v) attribute option"
  round_end_block :: "'r \<Rightarrow> ('res \<times> 'r option) option"

text \<open>
  The attributes that every round object has without defining them, and what the call
  with one payload does to each. From \<^verbatim>\<open>AbstractRound\<close>: \<^verbatim>\<open>check_transaction\<close> and
  \<^verbatim>\<open>process_transaction\<close> read \<^verbatim>\<open>transaction.payload\<close>, which a payload does not
  have; \<^verbatim>\<open>end_block\<close> and \<^verbatim>\<open>__init__\<close> reject the number of arguments;
  \<^verbatim>\<open>period_state\<close>, \<^verbatim>\<open>_state\<close> and \<^verbatim>\<open>_consensus_params\<close> are objects that
  cannot be called. From \<^verbatim>\<open>ABC\<close> and \<^verbatim>\<open>object\<close> (CPython 3.11): the comparison
  methods and \<^verbatim>\<open>__subclasshook__\<close> return \<^verbatim>\<open>NotImplemented\<close>, every other one raises
  \<^verbatim>\<open>TypeError\<close>. \<^verbatim>\<open>__doc__\<close> of a class without a docstring and
  \<^verbatim>\<open>__weakref__\<close> are \<^verbatim>\<open>None\<close>, which \<^verbatim>\<open>getattr(self, name, None)\<close> does not
  tell from a missing attribute.
\<close>

definition raising_AttributeError :: "string list" where
  "raising_AttributeError = [''check_transaction'', ''process_transaction'']"

definition raising_TypeError :: "string list" where
  "raising_TypeError =
     [''end_block'', ''__init__'', ''period_state'', ''_state'', ''_consensus_params'',
      ''__abstractmethods__'', ''__annotations__'', ''__class__'', ''__delattr__'',
      ''__dict__'', ''__dir__'', ''__format__'', ''__getattribute__'', ''__getstate__'',
      ''__hash__'', ''__init_subclass__'', ''__module__'', ''__new__'', ''__reduce__'',
      ''__reduce_ex__'', ''__repr__'', ''__setattr__'', ''__sizeof__'', ''__slots__'',
      ''__str__'', ''_abc_impl'']"

definition returning_NotImplemented :: "string list" where
  "returning_NotImplemented =
     [''__eq__'', ''__ge__'', ''__gt__'', ''__le__'', ''__lt__'', ''__ne__'',
      ''__subclasshook__'']"

definition inherited_attrs :: "string \<Rightarrow> ('r, 'v) attribute option" where
  "inherited_attrs name =
     (if name \<in> set raising_AttributeError
      then Some (\<lambda>r p. (Inl (AttributeError ''payload''), r))
      else if name \<in> set raising_TypeError
      then Some (\<lambda>r p. (Inl (TypeError name), r))
      else if name \<in> set returning_NotImplemented
      then Some (\<lambda>r p. (Inr True, r))
      else None)"

text \<open>\<^verbatim>\<open>getattr(self, name, None)\<close> on a round.\<close>

definition AbstractRound_getattr ::
  "('r, 'v, 'res) round_class \<Rightarrow> 'r \<Rightarrow> string \<Rightarrow> ('r, 'v) attribute option" where
  "AbstractRound_getattr cls r name =
     (case own_attrs cls r name of
        Some a \<Rightarrow> Some a
      | None \<Rightarrow> inherited_attrs name)"

definition AbstractRound_check_transaction ::
  "('r, 'v, 'res) round_class \<Rightarrow> 'r \<Rightarrow> 'v transaction \<Rightarrow> (error + bool) \<times> 'r" where
  "AbstractRound_check_transaction cls r tx =
     (let tx_type = transaction_type (payload tx)
      in case AbstractRound_getattr cls r (''check_'' @ tx_type) of
           None \<Rightarrow> (Inr False, r)
         | Some payload_handler \<Rightarrow> payload_handler r (payload tx))"

text \<open>
  \<^verbatim>\<open>process_transaction\<close> looks the handler up first, then runs the check, then calls
  the handler it found on the round as the check left it; what the handler returns is
  dropped.
\<close>

definition AbstractRound_process_transaction ::
  "('r, 'v, 'res) round_class \<Rightarrow> 'r \<Rightarrow> 'v transaction \<Rightarrow> (error + unit) \<times> 'r" where
  "AbstractRound_process_transaction cls r tx =
     (let tx_type = transaction_type (payload tx)
      in case AbstractRound_getattr cls r tx_type of
           None \<Rightarrow> (Inl (ValueError ''request not recognized''), r)
         | Some h \<Rightarrow>
             (case AbstractRound_check_transaction cls r tx of
                (Inl e, r1) \<Rightarrow> (Inl e, r1)
              | (Inr is_valid, r1) \<Rightarrow>
                  if \<not> is_valid
                  then (Inl (TransactionNotValidError ''transaction not valid''), r1)
                  else (case h r1 (payload tx) of
                          (Inl e, r2) \<Rightarrow> (Inl e, r2)
                        | (Inr v, r2) \<Rightarrow> (Inr (), r2))))"

section \<open>Period\<close>

datatype BlockConstructionState =
    WAITING_FOR_BEGIN_BLOCK
  | WAITING_FOR_DELIVER_TX
  | WAITING_FOR_COMMIT

record ('r, 'v, 'res) period =
  blockchain :: "'v blockchain"
  block_construction_phase :: BlockConstructionState
  block_builder :: "'v block_builder"
  current_round :: "'r option"
  previous_rounds :: "'r list"
  round_results :: "'res list"

definition Period_init :: "('r, 'v, 'res) period" where
  "Period_init =
     \<lparr>blockchain = Blockchain_init,
      block_construction_phase = WAITING_FOR_BEGIN_BLOCK,
      block_builder = BlockBuilder_init,
      current_round = None,
      previous_rounds = [],
      round_results = []\<rparr>"

text \<open>\<^verbatim>\<open>setup\<close> installs the round that the starting round class constructs.\<close>

definition Period_setup :: "('r, 'v, 'res) period \<Rightarrow> 'r \<Rightarrow> ('r, 'v, 'res) period" where
  "Period_setup p r = p\<lparr>current_round := Some r\<rparr>"

definition Period_is_finished :: "('r, 'v, 'res) period \<Rightarrow> bool" where
  "Period_is_finished p = (current_round p = None)"

text \<open>The property \<^verbatim>\<open>current_round\<close>.\<close>

definition Period_current_round :: "('r, 'v, 'res) period \<Rightarrow> error + 'r" where
  "Period_current_round p =
     (case current_round p of
        None \<Rightarrow> Inl (ValueError ''current_round not set!'')
      | Some r \<Rightarrow> Inr r)"

definition Period_begin_block ::
  "('r, 'v, 'res) period \<Rightarrow> header \<Rightarrow> (error + unit) \<times> ('r, 'v, 'res) period" where
  "Period_begin_block p h =
     (if Period_is_finished p
      then (Inl (ValueError ''period is finished, cannot accept new blocks''), p)
      else if block_construction_phase p \<noteq> WAITING_FOR_BEGIN_BLOCK
      then (Inl (ValueError ''cannot accept a 'begin_block' request.''), p)
      else
        let p1 = p\<lparr>block_construction_phase := WAITING_FOR_DELIVER_TX\<rparr>;
            p2 = p1\<lparr>block_builder := BlockBuilder_reset (block_builder p1)\<rparr>
        in case BlockBuilder_set_header (block_builder p2) h of
             (Inl e, bb) \<Rightarrow> (Inl e, p2\<lparr>block_builder := bb\<rparr>)
           | (Inr u, bb) \<Rightarrow> (Inr (), p2\<lparr>block_builder := bb\<rparr>))"

text \<open>
  In \<^verbatim>\<open>deliver_tx\<close> the first call goes through the attribute \<^verbatim>\<open>_current_round\<close>,
  which on \<^verbatim>\<open>None\<close> has no method \<^verbatim>\<open>check_transaction\<close>; the second goes through
  the property. An exception of either call leaves \<^verbatim>\<open>deliver_tx\<close> at once.
\<close>

definition Period_deliver_tx ::
  "('r, 'v, 'res) round_class \<Rightarrow> ('r, 'v, 'res) period \<Rightarrow> 'v transaction \<Rightarrow>
   (error + bool) \<times> ('r, 'v, 'res) period" where
  "Period_deliver_tx cls p tx =
     (if block_construction_phase p \<noteq> WAITING_FOR_DELIVER_TX
      then (Inl (ValueError ''cannot accept a 'deliver_tx' request.''), p)
      else case current_round p of
             None \<Rightarrow> (Inl (AttributeError ''check_transaction''), p)
           | Some r \<Rightarrow>
               (case AbstractRound_check_transaction cls r tx of
                  (Inl e, r1) \<Rightarrow> (Inl e, p\<lparr>current_round := Some r1\<rparr>)
                | (Inr is_valid, r1) \<Rightarrow>
                    let p1 = p\<lparr>current_round := Some r1\<rparr>
                    in if is_valid
                       then (case Period_current_round p1 of
                               Inl e \<Rightarrow> (Inl e, p1)
                             | Inr r2 \<Rightarrow>
                                 (case AbstractRound_process_transaction cls r2 tx of
                                    (Inl e, r3) \<Rightarrow> (Inl e, p1\<lparr>current_round := Some r3\<rparr>)
                                  | (Inr u, r3) \<Rightarrow>
                                      (Inr is_valid,
                                       p1\<lparr>current_round := Some r3,
                                          block_builder :=
                                            BlockBuilder_add_transaction (block_builder p1) tx\<rparr>)))
                       else (Inr is_valid, p1)))"

definition Period_end_block ::
  "('r, 'v, 'res) period \<Rightarrow> (error + unit) \<times> ('r, 'v, 'res) period" where
  "Period_end_block p =
     (if block_construction_phase p \<noteq> WAITING_FOR_DELIVER_TX
      then (Inl (ValueError ''cannot accept a 'end_block' request.''), p)
      else (Inr (), p\<lparr>block_construction_phase := WAITING_FOR_COMMIT\<rparr>))"

definition Period_update_round ::
  "('r, 'v, 'res) round_class \<Rightarrow> ('r, 'v, 'res) period \<Rightarrow>
   (error + unit) \<times> ('r, 'v, 'res) period" where
  "Period_update_round cls p =
     (case Period_current_round p of
        Inl e \<Rightarrow> (Inl e, p)
      | Inr r \<Rightarrow>
          (case round_end_block cls r of
             None \<Rightarrow> (Inr (), p)
           | Some (round_result, next_round) \<Rightarrow>
               (Inr (),
                p\<lparr>previous_rounds := previous_rounds p @ [r],
                  round_results := round_results p @ [round_result],
                  current_round := next_round\<rparr>)))"

text \<open>
  \<^verbatim>\<open>commit\<close> catches \<^verbatim>\<open>AddBlockError\<close> only to raise it again, so every exception
  of the block leaves the phase as it was.
\<close>

definition Period_commit ::
  "('r, 'v, 'res) round_class \<Rightarrow> ('r, 'v, 'res) period \<Rightarrow>
   (error + unit) \<times> ('r, 'v, 'res) period" where
  "Period_commit cls p =
     (if block_construction_phase p \<noteq> WAITING_FOR_COMMIT
      then (Inl (ValueError ''cannot accept a 'commit' request.''), p)
      else case BlockBuilder_get_block (block_builder p) of
             Inl e \<Rightarrow> (Inl e, p)
           | Inr b \<Rightarrow>
               (case Blockchain_add_block (blockchain p) b of
                  (Inl e, c) \<Rightarrow> (Inl e, p\<lparr>blockchain := c\<rparr>)
                | (Inr u, c) \<Rightarrow>
                    (case Period_update_round cls (p\<lparr>blockchain := c\<rparr>) of
                       (Inl e, p1) \<Rightarrow> (Inl e, p1)
                     | (Inr u1, p1) \<Rightarrow>
                         (Inr (), p1\<lparr>block_construction_phase := WAITING_FOR_BEGIN_BLOCK\<rparr>))))"

text \<open>
  The periods that exist: a fresh one, and what any call of \<^verbatim>\<open>setup\<close> or of an entry
  point leaves behind, whether it returned or raised.
\<close>

inductive reachable :: "('r, 'v, 'res) round_class \<Rightarrow> ('r, 'v, 'res) period \<Rightarrow> bool"
  for cls :: "('r, 'v, 'res) round_class" where
  fresh: "reachable cls Period_init"
| after_setup: "reachable cls p \<Longrightarrow> reachable cls (Period_setup p r)"
| after_begin_block: "reachable cls p \<Longrightarrow> reachable cls (snd (Period_begin_block p h))"
| after_deliver_tx: "reachable cls p \<Longrightarrow> reachable cls (snd (Period_deliver_tx cls p tx))"
| after_end_block: "reachable cls p \<Longrightarrow> reachable cls (snd (Period_end_block p))"
| after_commit: "reachable cls p \<Longrightarrow> reachable cls (snd (Period_commit cls p))"

section \<open>The payload registry\<close>

text \<open>
  What the metaclass \<^verbatim>\<open>_MetaPayload\<close> reads of a class under construction: its
  identity as an object (classes compare by identity), its module, whether \<^verbatim>\<open>ABC\<close>
  is among its bases, whether it inherits from \<^verbatim>\<open>BaseTxPayload\<close>, and the class
  attributes that \<^verbatim>\<open>getattr\<close> finds. An attribute value is \<open>None\<close> for Python's
  \<^verbatim>\<open>None\<close> and \<open>Some s\<close> for an object that \<^verbatim>\<open>str\<close> renders as \<open>s\<close>.
\<close>

record payload_class =
  cls_id :: nat
  cls_module :: string
  abc_in_bases :: bool
  subclass_of_BaseTxPayload :: bool
  cls_attrs :: "string \<rightharpoonup> string option"

type_synonym registry = "string \<rightharpoonup> payload_class"

definition py_str :: "string option \<Rightarrow> string" where
  "py_str v = (case v of None \<Rightarrow> ''None'' | Some s \<Rightarrow> s)"

definition hasattr :: "payload_class \<Rightarrow> string \<Rightarrow> bool" where
  "hasattr cls field_name = (cls_attrs cls field_name \<noteq> None)"

definition getattr :: "payload_class \<Rightarrow> string \<Rightarrow> error + string option" where
  "getattr cls field_name =
     (case cls_attrs cls field_name of
        None \<Rightarrow> Inl (AttributeError field_name)
      | Some v \<Rightarrow> Inr v)"

text \<open>
  The guard of \<^verbatim>\<open>_get_field\<close> is \<^verbatim>\<open>not hasattr(..) and getattr(..) is None\<close>: the
  right operand is evaluated only when the attribute is missing, and then \<^verbatim>\<open>getattr\<close>
  raises.
\<close>

definition MetaPayload_get_field :: "payload_class \<Rightarrow> string \<Rightarrow> error + string option" where
  "MetaPayload_get_field cls field_name =
     (if \<not> hasattr cls field_name
      then (case getattr cls field_name of
              Inl e \<Rightarrow> Inl e
            | Inr v \<Rightarrow>
                if v = None
                then Inl (ValueError ''class must set class field'')
                else getattr cls field_name)
      else getattr cls field_name)"

definition MetaPayload_validate_transaction_type ::
  "registry \<Rightarrow> string \<Rightarrow> payload_class \<Rightarrow> error + unit" where
  "MetaPayload_validate_transaction_type reg tx_type new_payload_cls =
     (case reg tx_type of
        None \<Rightarrow> Inr ()
      | Some previous_payload_cls \<Rightarrow>
          if cls_id new_payload_cls \<noteq> cls_id previous_payload_cls
          then Inl (ValueError ''transaction type already used'')
          else Inr ())"

text \<open>
  The two last steps of \<^verbatim>\<open>__new__\<close>: validate the tag, then remember the class under
  it.
\<close>

definition register :: "registry \<Rightarrow> string \<Rightarrow> payload_class \<Rightarrow> (error + unit) \<times> registry" where
  "register reg tx_type new_cls =
     (case MetaPayload_validate_transaction_type reg tx_type new_cls of
        Inl e \<Rightarrow> (Inl e, reg)
      | Inr u \<Rightarrow> (Inr (), reg(tx_type \<mapsto> new_cls)))"

definition MetaPayload_new ::
  "registry \<Rightarrow> payload_class \<Rightarrow> (error + payload_class) \<times> registry" where
  "MetaPayload_new reg new_cls =
     (if prefix ''packages.'' (cls_module new_cls) then (Inr new_cls, reg)
      else if abc_in_bases new_cls then (Inr new_cls, reg)
      else if \<not> subclass_of_BaseTxPayload new_cls
      then (Inl (ValueError ''class must inherit from BaseTxPayload''), reg)
      else case MetaPayload_get_field new_cls ''transaction_type'' of
             Inl e \<Rightarrow> (Inl e, reg)
           | Inr v \<Rightarrow>
               (case register reg (py_str v) new_cls of
                  (Inl e, reg1) \<Rightarrow> (Inl e, reg1)
                | (Inr u, reg1) \<Rightarrow> (Inr new_cls, reg1)))"

text \<open>
  The lookup of \<^verbatim>\<open>from_json\<close>,
  \<^verbatim>\<open>_MetaPayload.transaction_type_to_payload_cls[transaction_type]\<close>.
\<close>

definition lookup :: "registry \<Rightarrow> string \<Rightarrow> error + payload_class" where
  "lookup reg tx_type =
     (case reg tx_type of
        None \<Rightarrow> Inl (KeyError tx_type)
      | Some payload_cls \<Rightarrow> Inr payload_cls)"

section \<open>Equality of payloads\<close>

text \<open>
  The right operand of \<^verbatim>\<open>__eq__\<close> is any object. The method reads its attributes
  \<^verbatim>\<open>sender\<close> and \<^verbatim>\<open>data\<close>, each of which the object has (\<open>Some\<close>) or not.
\<close>

record 'v py_object =
  isinstance_BaseTxPayload :: bool
  attr_sender :: "string option"
  attr_data :: "(string \<rightharpoonup> 'v) option"

definition object_of_payload :: "'v payload \<Rightarrow> 'v py_object" where
  "object_of_payload p =
     \<lparr>isinstance_BaseTxPayload = True,
      attr_sender = Some (sender p),
      attr_data = Some (data p)\<rparr>"

definition BaseTxPayload_eq :: "'v payload \<Rightarrow> 'v py_object \<Rightarrow> error + bool" where
  "BaseTxPayload_eq self other =
     (case attr_sender other of
        None \<Rightarrow> Inl (AttributeError ''sender'')
      | Some s \<Rightarrow>
          if \<not> (sender self = s) then Inr False
          else (case attr_data other of
                  None \<Rightarrow> Inl (AttributeError ''data'')
                | Some d \<Rightarrow> Inr (data self = d)))"

section \<open>ConsensusParams\<close>

text \<open>
  \<^verbatim>\<open>max_participants * 2 / 3\<close> is Python's true division of two integers: the float
  nearest to the exact quotient, ties to the even significand, and \<^verbatim>\<open>OverflowError\<close>
  beyond the range of a double. A finite double is \<open>significand * 2 ^ exponent\<close> with
  \<open>\<bar>significand\<bar> \<le> 2 ^ 53\<close> and \<open>- 1074 \<le> exponent\<close>.
\<close>

record pyfloat =
  significand :: int
  exponent :: int

fun bit_length :: "nat \<Rightarrow> nat" where
  "bit_length n = (if n = 0 then 0 else Suc (bit_length (n div 2)))"

declare bit_length.simps [simp del]

text \<open>The floor of the binary logarithm of \<open>x / y\<close>, for positive \<open>x\<close> and \<open>y\<close>.\<close>

definition floor_log2 :: "nat \<Rightarrow> nat \<Rightarrow> int" where
  "floor_log2 x y =
     (let d = int (bit_length x) - int (bit_length y)
      in if (if 0 \<le> d then y * 2 ^ nat d \<le> x else y \<le> x * 2 ^ nat (- d))
         then d else d - 1)"

text \<open>The integer nearest to \<open>n / d\<close> for \<open>d > 0\<close>, a tie going to the even one.\<close>

definition round_half_even :: "int \<Rightarrow> int \<Rightarrow> int" where
  "round_half_even n d =
     (let q = n div d; r = n mod d
      in if 2 * r < d then q
         else if d < 2 * r then q + 1
         else if even q then q else q + 1)"

definition int_true_divide :: "int \<Rightarrow> int \<Rightarrow> error + pyfloat" where
  "int_true_divide a b =
     (if b = 0 then Inl ZeroDivisionError
      else if a = 0 then Inr \<lparr>significand = 0, exponent = 0\<rparr>
      else
        let x = nat \<bar>a\<bar>; y = nat \<bar>b\<bar>;
            e = max (floor_log2 x y - 52) (- 1074);
            m = (if 0 \<le> e then round_half_even (int x) (int y * 2 ^ nat e)
                 else round_half_even (int x * 2 ^ nat (- e)) (int y))
        in if 971 < e \<or> (e = 971 \<and> m = 2 ^ 53) then Inl OverflowError
           else Inr \<lparr>significand = sgn a * sgn b * m, exponent = e\<rparr>)"

text \<open>\<^verbatim>\<open>math.ceil\<close> of a finite float is exact.\<close>

definition math_ceil :: "pyfloat \<Rightarrow> int" where
  "math_ceil f =
     (if 0 \<le> exponent f then significand f * 2 ^ nat (exponent f)
      else - ((- significand f) div 2 ^ nat (- exponent f)))"

record consensus_params =
  max_participants :: int

definition two_thirds_threshold :: "consensus_params \<Rightarrow> error + int" where
  "two_thirds_threshold cp =
     (case int_true_divide (max_participants cp * 2) 3 of
        Inl e \<Rightarrow> Inl e
      | Inr f \<Rightarrow> Inr (math_ceil f))"

section \<open>BasePeriodState\<close>

text \<open>
  A period state is an object of a concrete class. Subclasses are defined elsewhere; of the
  class the model keeps the keyword parameters of its constructor, which stores each
  parameter \<^verbatim>\<open>k\<close> in the attribute \<^verbatim>\<open>_k\<close> and defaults it to \<^verbatim>\<open>None\<close>, as
  \<^verbatim>\<open>BasePeriodState.__init__\<close> does with \<^verbatim>\<open>participants\<close>. The object keeps its
  \<^verbatim>\<open>__dict__\<close> in insertion order. A value is \<open>None\<close> for Python's \<^verbatim>\<open>None\<close>.
\<close>

record 'v period_state =
  state_params :: "string list"
  state_dict :: "(string \<times> 'v option) list"

definition BasePeriodState_params :: "string list" where
  "BasePeriodState_params = [''participants'']"

text \<open>
  \<^verbatim>\<open>type(self)(**data)\<close>: a keyword that is no parameter of the constructor is a
  \<^verbatim>\<open>TypeError\<close>.
\<close>

definition construct :: "string list \<Rightarrow> (string \<times> 'v option) list \<Rightarrow> error + 'v period_state" where
  "construct params kwargs =
     (case filter (\<lambda>k. k \<notin> set params) (map fst kwargs) of
        k # ks \<Rightarrow> Inl (TypeError k)
      | [] \<Rightarrow>
          Inr \<lparr>state_params = params,
               state_dict =
                 map (\<lambda>k. (CHR ''_'' # k,
                            case map_of kwargs k of None \<Rightarrow> None | Some v \<Rightarrow> v))
                   params\<rparr>)"

text \<open>Storing items in a dictionary one after the other: a later item replaces an
  earlier one with the same key, in its place.\<close>

definition dict_update :: "('k \<times> 'a) list \<Rightarrow> ('k \<times> 'a) list \<Rightarrow> ('k \<times> 'a) list" where
  "dict_update d items = fold (\<lambda>(k, v). AList.update k v) items d"

definition BasePeriodState_update ::
  "'v period_state \<Rightarrow> (string \<times> 'v option) list \<Rightarrow> error + 'v period_state" where
  "BasePeriodState_update self kwargs =
     (let data = dict_update [] (map (\<lambda>(key, value). (drop 1 key, value)) (state_dict self));
          data = dict_update data kwargs
      in construct (state_params self) data)"

text \<open>Reading the attribute \<^verbatim>\<open>_k\<close> of a state.\<close>

definition field :: "'v period_state \<Rightarrow> string \<Rightarrow> 'v option option" where
  "field x k = map_of (state_dict x) (CHR ''_'' # k)"

section \<open>Example rounds and periods\<close>

text \<open>
  A round that counts the payloads it applied. Its class defines \<^verbatim>\<open>check_vote\<close>, which
  accepts a payload with a non-empty sender, and \<^verbatim>\<open>vote\<close>, which counts and returns
  \<^verbatim>\<open>None\<close>; it ends, with no successor, at the first block boundary after a vote.
\<close>

definition counting_round :: "(nat, nat, unit) round_class" where
  "counting_round =
     \<lparr>own_attrs = (\<lambda>r name.
        if name = ''check_vote'' then Some (\<lambda>r p. (Inr (sender p \<noteq> []), r))
        else if name = ''vote'' then Some (\<lambda>r p. (Inr False, Suc r))
        else None),
      round_end_block = (\<lambda>r. if 0 < r then Some ((), None) else None)\<rparr>"

text \<open>A round class that defines \<^verbatim>\<open>check_vote\<close>, always true, and no method \<^verbatim>\<open>vote\<close>.\<close>

definition checking_only_round :: "(nat, nat, unit) round_class" where
  "checking_only_round =
     \<lparr>own_attrs = (\<lambda>r name.
        if name = ''check_vote'' then Some (\<lambda>r p. (Inr True, r)) else None),
      round_end_block = (\<lambda>r. None)\<rparr>"

text \<open>A round class that defines \<^verbatim>\<open>check_vote\<close>, always false, and no method \<^verbatim>\<open>vote\<close>.\<close>

definition rejecting_only_round :: "(nat, nat, unit) round_class" where
  "rejecting_only_round =
     \<lparr>own_attrs = (\<lambda>r name.
        if name = ''check_vote'' then Some (\<lambda>r p. (Inr False, r)) else None),
      round_end_block = (\<lambda>r. None)\<rparr>"

text \<open>
  A vote, and a period after \<^verbatim>\<open>setup\<close>, after \<^verbatim>\<open>begin_block\<close> with a header of
  height \<open>h\<close>, and after \<^verbatim>\<open>end_block\<close>.
\<close>

definition vote :: "string \<Rightarrow> nat transaction" where
  "vote a = \<lparr>payload = \<lparr>transaction_type = ''vote'', sender = a, data = Map.empty\<rparr>, signature = ''sig''\<rparr>"

definition period_started :: "(nat, nat, unit) period" where
  "period_started = Period_setup Period_init 0"

definition period_delivering :: "int \<Rightarrow> (nat, nat, unit) period" where
  "period_delivering h = snd (Period_begin_block period_started \<lparr>height = h\<rparr>)"

definition period_committing :: "int \<Rightarrow> (nat, nat, unit) period" where
  "period_committing h = snd (Period_end_block (period_delivering h))"

text \<open>
  A transaction of a type for which the counting round has no attribute at all, and
  transactions of any tag: with the tag \<^verbatim>\<open>transaction\<close> the name
  \<^verbatim>\<open>"check_" + tag\<close> is that of \<^verbatim>\<open>check_transaction\<close> itself, and the tag
  \<^verbatim>\<open>end_block\<close> names a method that is no handler.
\<close>

definition ballot :: "string \<Rightarrow> nat transaction" where
  "ballot a = \<lparr>payload = \<lparr>transaction_type = ''ballot'', sender = a, data = Map.empty\<rparr>, signature = ''sig''\<rparr>"

definition tagged :: "string \<Rightarrow> string \<Rightarrow> nat transaction" where
  "tagged t a =
     \<lparr>payload = \<lparr>transaction_type = t, sender = a, data = Map.empty\<rparr>, signature = ''sig''\<rparr>"

text \<open>
  Payload classes: one tagged \<^verbatim>\<open>vote\<close>, a second class with the same tag, a concrete
  class without the attribute \<^verbatim>\<open>transaction_type\<close>, and the same class defined in a
  module under \<^verbatim>\<open>packages.\<close>
\<close>

definition vote_payload_class :: payload_class where
  "vote_payload_class =
     \<lparr>cls_id = 1, cls_module = ''valory.skills.vote.payloads'', abc_in_bases = False,
      subclass_of_BaseTxPayload = True,
      cls_attrs = [''transaction_type'' \<mapsto> Some ''vote'']\<rparr>"

definition other_vote_payload_class :: payload_class where
  "other_vote_payload_class = vote_payload_class\<lparr>cls_id := 2\<rparr>"

definition untagged_payload_class :: payload_class where
  "untagged_payload_class =
     \<lparr>cls_id = 3, cls_module = ''valory.skills.vote.payloads'', abc_in_bases = False,
      subclass_of_BaseTxPayload = True, cls_attrs = Map.empty\<rparr>"

definition packaged_payload_class :: payload_class where
  "packaged_payload_class =
     untagged_payload_class\<lparr>cls_id := 4, cls_module := ''packages.valory.skills.vote.payloads''\<rparr>"

text \<open>
  A state of a subclass with the fields \<^verbatim>\<open>participants\<close> and \<^verbatim>\<open>keeper\<close>, and a
  state of \<^verbatim>\<open>BasePeriodState\<close> itself.
\<close>

definition keeper_state :: "string period_state" where
  "keeper_state =
     \<lparr>state_params = [''participants'', ''keeper''],
      state_dict = [(''_participants'', Some ''ab''), (''_keeper'', None)]\<rparr>"

definition base_state :: "string period_state" where
  "base_state =
     \<lparr>state_params = BasePeriodState_params, state_dict = [(''_participants'', Some ''ab'')]\<rparr>"

section \<open>Blockchain: the height invariant\<close>

lemma add_block_rejects:
  "height (header b) \<noteq> Blockchain_height c \<Longrightarrow>
   Blockchain_add_block c b =
     (Inl (AddBlockError (Blockchain_height c) (height (header b))), c)"
  by (simp add: Blockchain_add_block_def Let_def)

lemma add_block_appends:
  "height (header b) = Blockchain_height c \<Longrightarrow>
   Blockchain_add_block c b = (Inr (), c\<lparr>blocks := blocks c @ [b]\<rparr>)"
  by (simp add: Blockchain_add_block_def Let_def)

lemma add_blocks_heights:
  "add_blocks c bs = (c', n) \<Longrightarrow>
   length (blocks c') = length (blocks c) + n \<and>
   map (\<lambda>b. height (header b)) (blocks c') =
     map (\<lambda>b. height (header b)) (blocks c) @
     map int [Suc (length (blocks c)) ..< Suc (length (blocks c) + n)]"
proof (induction bs arbitrary: c c' n)
  case Nil
  then show ?case by simp
next
  case (Cons b bs)
  show ?case
  proof (cases "height (header b) = Blockchain_height c")
    case False
    then have "add_blocks c bs = (c', n)"
      using Cons.prems by (simp add: add_block_rejects)
    then show ?thesis by (rule Cons.IH)
  next
    case True
    let ?c1 = "c\<lparr>blocks := blocks c @ [b]\<rparr>"
    obtain c2 m where rest: "add_blocks ?c1 bs = (c2, m)"
      by (cases "add_blocks ?c1 bs")
    with True Cons.prems have eq: "c' = c2" "n = Suc m"
      by (simp_all add: add_block_appends)
    have hb: "height (header b) = int (Suc (length (blocks c)))"
      using True by (simp add: Blockchain_height_def Blockchain_length_def)
    from Cons.IH [OF rest] have
      len: "length (blocks c2) = length (blocks ?c1) + m" and
      hs: "map (\<lambda>b. height (header b)) (blocks c2) =
        map (\<lambda>b. height (header b)) (blocks ?c1) @
        map int [Suc (length (blocks ?c1)) ..< Suc (length (blocks ?c1) + m)]"
      by simp_all
    have "[Suc (length (blocks c)) ..< Suc (length (blocks c) + Suc m)] =
        Suc (length (blocks c)) # [Suc (Suc (length (blocks c))) ..< Suc (Suc (length (blocks c) + m))]"
      by (simp add: upt_conv_Cons)
    with len hs hb eq show ?thesis by simp
  qed
qed

text \<open>
  Claim C4. For every blockchain the height is the length plus one. \<^verbatim>\<open>add_block\<close>
  raises \<^verbatim>\<open>AddBlockError\<close> and leaves the chain as it was unless the height in the
  block's header is the chain's height, and otherwise appends the block. Hence, after any
  sequence of calls on the empty chain of which \<open>n\<close> succeeded, the length is \<open>n\<close>,
  the height is \<open>n + 1\<close> and the heights of the blocks are \<open>1, 2, \<dots>, n\<close> in this
  order.
\<close>

theorem blockchain_height_invariant:
  "Blockchain_height c = Blockchain_length c + 1 \<and>
   (height (header b) \<noteq> Blockchain_height c \<longrightarrow>
      Blockchain_add_block c b =
        (Inl (AddBlockError (Blockchain_height c) (height (header b))), c)) \<and>
   (height (header b) = Blockchain_height c \<longrightarrow>
      Blockchain_add_block c b = (Inr (), c\<lparr>blocks := blocks c @ [b]\<rparr>)) \<and>
   (add_blocks Blockchain_init bs = (c', n) \<longrightarrow>
      Blockchain_length c' = int n \<and> Blockchain_height c' = int n + 1 \<and>
      map (\<lambda>b. height (header b)) (blocks c') = map int [1 ..< Suc n])"
proof -
  have "add_blocks Blockchain_init bs = (c', n) \<Longrightarrow>
      Blockchain_length c' = int n \<and> Blockchain_height c' = int n + 1 \<and>
      map (\<lambda>b. height (header b)) (blocks c') = map int [1 ..< Suc n]"
    using add_blocks_heights [of Blockchain_init bs c' n]
    by (simp add: Blockchain_init_def Blockchain_height_def Blockchain_length_def)
  then show ?thesis
    by (simp add: add_block_rejects add_block_appends Blockchain_height_def)
qed

theorem blockchain_height_invariant_witness:
  "Blockchain_add_block (Blockchain_init :: nat blockchain)
       \<lparr>header = \<lparr>height = 2\<rparr>, transactions = []\<rparr> =
     (Inl (AddBlockError 1 2), Blockchain_init) \<and>
   Blockchain_add_block (Blockchain_init :: nat blockchain)
       \<lparr>header = \<lparr>height = 1\<rparr>, transactions = []\<rparr> =
     (Inr (), \<lparr>blocks = [\<lparr>header = \<lparr>height = 1\<rparr>, transactions = []\<rparr>]\<rparr>) \<and>
   add_blocks (Blockchain_init :: nat blockchain)
       [\<lparr>header = \<lparr>height = 1\<rparr>, transactions = []\<rparr>,
        \<lparr>header = \<lparr>height = 3\<rparr>, transactions = []\<rparr>,
        \<lparr>header = \<lparr>height = 2\<rparr>, transactions = []\<rparr>] =
     (\<lparr>blocks = [\<lparr>header = \<lparr>height = 1\<rparr>, transactions = []\<rparr>,
                \<lparr>header = \<lparr>height = 2\<rparr>, transactions = []\<rparr>]\<rparr>, 2) \<and>
   Blockchain_length \<lparr>blocks = [\<lparr>header = \<lparr>height = 1\<rparr>, transactions = [] :: nat transaction list\<rparr>,
                \<lparr>header = \<lparr>height = 2\<rparr>, transactions = []\<rparr>]\<rparr> = 2"
proof -
  let ?b1 = "\<lparr>header = \<lparr>height = 1\<rparr>, transactions = [] :: nat transaction list\<rparr>"
  let ?b2 = "\<lparr>header = \<lparr>height = 2\<rparr>, transactions = [] :: nat transaction list\<rparr>"
  let ?b3 = "\<lparr>header = \<lparr>height = 3\<rparr>, transactions = [] :: nat transaction list\<rparr>"
  have run: "add_blocks Blockchain_init [?b1, ?b3, ?b2] = (\<lparr>blocks = [?b1, ?b2]\<rparr>, 2)"
    by (simp add: Blockchain_add_block_def Blockchain_init_def Blockchain_height_def
        Blockchain_length_def)
  have h2: "height (header ?b2) \<noteq> Blockchain_height (Blockchain_init :: nat blockchain)"
    by (simp add: Blockchain_init_def Blockchain_height_def Blockchain_length_def)
  have h1: "height (header ?b1) = Blockchain_height (Blockchain_init :: nat blockchain)"
    by (simp add: Blockchain_init_def Blockchain_height_def Blockchain_length_def)
  from blockchain_height_invariant [of "Blockchain_init :: nat blockchain" ?b2 "[?b1, ?b3, ?b2]" "\<lparr>blocks = [?b1, ?b2]\<rparr>" 2]
    h2 run
  have a: "Blockchain_add_block (Blockchain_init :: nat blockchain) ?b2 =
      (Inl (AddBlockError 1 2), Blockchain_init)"
    and l: "Blockchain_length \<lparr>blocks = [?b1, ?b2]\<rparr> = 2"
    by (simp_all add: Blockchain_init_def Blockchain_height_def Blockchain_length_def)
  from blockchain_height_invariant [of "Blockchain_init :: nat blockchain" ?b1 "[]" "Blockchain_init :: nat blockchain" 0] h1
  have b: "Blockchain_add_block (Blockchain_init :: nat blockchain) ?b1 =
      (Inr (), \<lparr>blocks = [?b1]\<rparr>)"
    by (simp add: Blockchain_init_def)
  from a b run l show ?thesis by simp
qed

section \<open>Period: the entry points\<close>

text \<open>
  Only \<^verbatim>\<open>begin_block\<close> leaves the phase \<^verbatim>\<open>WAITING_FOR_BEGIN_BLOCK\<close>, and it
  refuses a finished period; nothing but \<^verbatim>\<open>commit\<close>, which returns to that phase,
  removes the current round.
\<close>

lemmas period_defs = Period_begin_block_def Period_deliver_tx_def Period_end_block_def
  Period_commit_def Period_update_round_def Period_current_round_def Period_is_finished_def
  Period_setup_def Period_init_def

lemma reachable_has_round:
  "reachable cls p \<Longrightarrow> block_construction_phase p \<noteq> WAITING_FOR_BEGIN_BLOCK \<Longrightarrow>
   current_round p \<noteq> None"
proof (induction rule: reachable.induct)
  case fresh
  then show ?case by (simp add: Period_init_def)
next
  case (after_setup p r)
  then show ?case by (simp add: Period_setup_def)
next
  case (after_begin_block p h)
  then show ?case
    by (auto simp: Period_begin_block_def Period_is_finished_def Let_def
        BlockBuilder_set_header_def BlockBuilder_reset_def split: if_splits)
next
  case (after_deliver_tx p tx)
  then show ?case
    by (auto simp: Period_deliver_tx_def Period_current_round_def Let_def
        split: if_splits option.splits sum.splits prod.splits)
next
  case (after_end_block p)
  then show ?case by (auto simp: Period_end_block_def split: if_splits)
next
  case (after_commit p)
  then show ?case
    by (auto simp: Period_commit_def Period_update_round_def Period_current_round_def
        split: if_splits option.splits sum.splits prod.splits)
qed

lemma reachable_started: "reachable cls period_started"
  unfolding period_started_def by (intro reachable.intros)

lemma reachable_delivering: "reachable cls (period_delivering h)"
  unfolding period_delivering_def by (intro reachable.intros reachable_started)

lemma reachable_committing: "reachable cls (period_committing h)"
  unfolding period_committing_def by (intro reachable.intros reachable_delivering)

lemma period_delivering_eq:
  "period_delivering h =
     \<lparr>blockchain = \<lparr>blocks = []\<rparr>, block_construction_phase = WAITING_FOR_DELIVER_TX,
      block_builder = \<lparr>current_header = Some \<lparr>height = h\<rparr>, current_transactions = []\<rparr>,
      current_round = Some 0, previous_rounds = [], round_results = []\<rparr>"
  by (simp add: period_delivering_def period_started_def period_defs Blockchain_init_def
      BlockBuilder_init_def BlockBuilder_reset_def BlockBuilder_set_header_def)

lemma period_committing_eq:
  "period_committing h =
     \<lparr>blockchain = \<lparr>blocks = []\<rparr>, block_construction_phase = WAITING_FOR_COMMIT,
      block_builder = \<lparr>current_header = Some \<lparr>height = h\<rparr>, current_transactions = []\<rparr>,
      current_round = Some 0, previous_rounds = [], round_results = []\<rparr>"
  by (simp add: period_committing_def period_delivering_eq Period_end_block_def)

text \<open>The example rounds on the example transactions.\<close>

lemma inherited_attrs_examples:
  "inherited_attrs ''check_vote'' = None"
  "inherited_attrs ''vote'' = None"
  "inherited_attrs ''check_ballot'' = None"
  "inherited_attrs ''ballot'' = None"
  "inherited_attrs ''transaction'' = None"
  "inherited_attrs ''check_transaction'' = Some (\<lambda>r p. (Inl (AttributeError ''payload''), r))"
  "inherited_attrs ''check_end_block'' = None"
  "inherited_attrs ''end_block'' = Some (\<lambda>r p. (Inl (TypeError ''end_block''), r))"
  by (simp_all add: inherited_attrs_def raising_AttributeError_def raising_TypeError_def
      returning_NotImplemented_def)

lemma example_tags:
  "transaction_type (payload (vote a)) = ''vote''"
  "transaction_type (payload (ballot a)) = ''ballot''"
  "transaction_type (payload (tagged t a)) = t"
  by (simp_all add: vote_def ballot_def tagged_def)

lemma counting_round_getattr:
  "AbstractRound_getattr counting_round r ''check_vote'' =
     Some (\<lambda>r p. (Inr (sender p \<noteq> []), r))"
  "AbstractRound_getattr counting_round r ''vote'' = Some (\<lambda>r p. (Inr False, Suc r))"
  "AbstractRound_getattr counting_round r ''check_ballot'' = None"
  "AbstractRound_getattr counting_round r ''ballot'' = None"
  "AbstractRound_getattr counting_round r ''check_transaction'' =
     Some (\<lambda>r p. (Inl (AttributeError ''payload''), r))"
  "AbstractRound_getattr counting_round r ''transaction'' = None"
  "AbstractRound_getattr counting_round r ''check_end_block'' = None"
  "AbstractRound_getattr counting_round r ''end_block'' =
     Some (\<lambda>r p. (Inl (TypeError ''end_block''), r))"
  by (simp_all add: AbstractRound_getattr_def counting_round_def inherited_attrs_examples)

lemma counting_round_end_block:
  "round_end_block counting_round r = (if 0 < r then Some ((), None) else None)"
  by (simp add: counting_round_def)

lemma counting_round_check:
  "AbstractRound_check_transaction counting_round r (vote a) = (Inr (a \<noteq> []), r)"
  "AbstractRound_check_transaction counting_round r (ballot a) = (Inr False, r)"
  "AbstractRound_check_transaction counting_round r (tagged ''transaction'' a) =
     (Inl (AttributeError ''payload''), r)"
  "AbstractRound_check_transaction counting_round r (tagged ''end_block'' a) = (Inr False, r)"
  by (simp_all add: AbstractRound_check_transaction_def example_tags counting_round_getattr)
    (simp add: vote_def)

lemma counting_round_process:
  "AbstractRound_process_transaction counting_round r (vote ''a'') = (Inr (), Suc r)"
  "AbstractRound_process_transaction counting_round r (vote []) =
     (Inl (TransactionNotValidError ''transaction not valid''), r)"
  "AbstractRound_process_transaction counting_round r (ballot a) =
     (Inl (ValueError ''request not recognized''), r)"
  "AbstractRound_process_transaction counting_round r (tagged ''transaction'' a) =
     (Inl (ValueError ''request not recognized''), r)"
  "AbstractRound_process_transaction counting_round r (tagged ''end_block'' a) =
     (Inl (TransactionNotValidError ''transaction not valid''), r)"
  by (simp_all add: AbstractRound_process_transaction_def example_tags counting_round_getattr
      counting_round_check)

lemma checking_only_round_vote:
  "AbstractRound_check_transaction checking_only_round r (vote a) = (Inr True, r)"
  "AbstractRound_process_transaction checking_only_round r (vote a) =
     (Inl (ValueError ''request not recognized''), r)"
  by (simp_all add: AbstractRound_check_transaction_def AbstractRound_process_transaction_def
      AbstractRound_getattr_def checking_only_round_def vote_def inherited_attrs_examples)

lemma rejecting_only_round_vote:
  "AbstractRound_check_transaction rejecting_only_round r (vote a) = (Inr False, r)"
  "AbstractRound_process_transaction rejecting_only_round r (vote a) =
     (Inl (ValueError ''request not recognized''), r)"
  by (simp_all add: AbstractRound_check_transaction_def AbstractRound_process_transaction_def
      AbstractRound_getattr_def rejecting_only_round_def vote_def inherited_attrs_examples)

text \<open>
  Claim C1, amended. A period in phase \<^verbatim>\<open>WAITING_FOR_DELIVER_TX\<close> has a current
  round, and \<^verbatim>\<open>deliver_tx\<close> first runs \<^verbatim>\<open>check_transaction\<close> of that round on the
  transaction. If the check raises, \<^verbatim>\<open>deliver_tx\<close> raises the same exception. If the
  check returns false, \<^verbatim>\<open>deliver_tx\<close> returns false; the period is unchanged but for
  what the check did to the round, so it is unchanged when the check leaves the round as
  it was. If the check returns true, \<^verbatim>\<open>deliver_tx\<close> calls \<^verbatim>\<open>process_transaction\<close>:
  when that returns, the transaction is appended to the block builder and \<^verbatim>\<open>deliver_tx\<close>
  returns true; when it raises, \<^verbatim>\<open>deliver_tx\<close> raises the same exception. In every case
  but the last success the block builder is unchanged.
\<close>

theorem deliver_tx_verdict:
  assumes "reachable cls p"
    and "block_construction_phase p = WAITING_FOR_DELIVER_TX"
  shows "\<exists>r. current_round p = Some r \<and>
     (\<forall>e r1. AbstractRound_check_transaction cls r tx = (Inl e, r1) \<longrightarrow>
        Period_deliver_tx cls p tx = (Inl e, p\<lparr>current_round := Some r1\<rparr>)) \<and>
     (\<forall>r1. AbstractRound_check_transaction cls r tx = (Inr False, r1) \<longrightarrow>
        Period_deliver_tx cls p tx = (Inr False, p\<lparr>current_round := Some r1\<rparr>)) \<and>
     (AbstractRound_check_transaction cls r tx = (Inr False, r) \<longrightarrow>
        Period_deliver_tx cls p tx = (Inr False, p)) \<and>
     (\<forall>r1. AbstractRound_check_transaction cls r tx = (Inr True, r1) \<longrightarrow>
        (case AbstractRound_process_transaction cls r1 tx of
           (Inr u, r2) \<Rightarrow>
             Period_deliver_tx cls p tx =
               (Inr True,
                p\<lparr>current_round := Some r2,
                  block_builder := BlockBuilder_add_transaction (block_builder p) tx\<rparr>)
         | (Inl e, r2) \<Rightarrow>
             Period_deliver_tx cls p tx = (Inl e, p\<lparr>current_round := Some r2\<rparr>))) \<and>
     (fst (Period_deliver_tx cls p tx) \<noteq> Inr True \<longrightarrow>
        block_builder (snd (Period_deliver_tx cls p tx)) = block_builder p)"
proof -
  from reachable_has_round [OF assms(1)] assms(2)
  obtain r where r: "current_round p = Some r" by auto
  have same: "p\<lparr>current_round := Some r\<rparr> = p"
    using r by simp
  have 1: "Period_deliver_tx cls p tx = (Inl e, p\<lparr>current_round := Some r1\<rparr>)"
    if "AbstractRound_check_transaction cls r tx = (Inl e, r1)" for e r1
    using that r assms(2) by (simp add: Period_deliver_tx_def)
  have 2: "Period_deliver_tx cls p tx = (Inr False, p\<lparr>current_round := Some r1\<rparr>)"
    if "AbstractRound_check_transaction cls r tx = (Inr False, r1)" for r1
    using that r assms(2) by (simp add: Period_deliver_tx_def)
  have 3: "Period_deliver_tx cls p tx = (Inr False, p)"
    if "AbstractRound_check_transaction cls r tx = (Inr False, r)"
    using 2 [OF that] same by simp
  have 4: "(case AbstractRound_process_transaction cls r1 tx of
           (Inr u, r2) \<Rightarrow>
             Period_deliver_tx cls p tx =
               (Inr True,
                p\<lparr>current_round := Some r2,
                  block_builder := BlockBuilder_add_transaction (block_builder p) tx\<rparr>)
         | (Inl e, r2) \<Rightarrow>
             Period_deliver_tx cls p tx = (Inl e, p\<lparr>current_round := Some r2\<rparr>))"
    if "AbstractRound_check_transaction cls r tx = (Inr True, r1)" for r1
    using that r assms(2)
    by (simp add: Period_deliver_tx_def Period_current_round_def Let_def
        split: prod.splits sum.splits)
  have 5: "block_builder (snd (Period_deliver_tx cls p tx)) = block_builder p"
    if "fst (Period_deliver_tx cls p tx) \<noteq> Inr True"
    using that
    by (auto simp: Period_deliver_tx_def Period_current_round_def Let_def
        split: if_splits option.splits prod.splits sum.splits)
  from r 1 2 3 4 5 show ?thesis by blast
qed

text \<open>
  A vote that the counting round accepts, one without a sender, and a payload tagged
  \<^verbatim>\<open>transaction\<close>, on which the check raises.
\<close>

theorem deliver_tx_verdict_witness:
  "Period_deliver_tx counting_round (period_delivering 1) (vote ''a'') =
     (Inr True,
      (period_delivering 1)\<lparr>current_round := Some 1,
        block_builder := \<lparr>current_header = Some \<lparr>height = 1\<rparr>,
                          current_transactions = [vote ''a'']\<rparr>\<rparr>) \<and>
   Period_deliver_tx counting_round (period_delivering 1) (vote []) =
     (Inr False, period_delivering 1) \<and>
   Period_deliver_tx counting_round (period_delivering 1) (tagged ''transaction'' ''a'') =
     (Inl (AttributeError ''payload''), period_delivering 1)"
proof -
  have ph: "block_construction_phase (period_delivering 1) = WAITING_FOR_DELIVER_TX"
    and cr: "current_round (period_delivering 1) = Some 0"
    by (simp_all add: period_delivering_eq)
  from deliver_tx_verdict [OF reachable_delivering ph, of counting_round "vote ''a''"] cr
  have 1: "Period_deliver_tx counting_round (period_delivering 1) (vote ''a'') =
      (Inr True,
       (period_delivering 1)\<lparr>current_round := Some 1,
         block_builder := BlockBuilder_add_transaction (block_builder (period_delivering 1))
           (vote ''a'')\<rparr>)"
    by (simp add: counting_round_check counting_round_process)
  from deliver_tx_verdict [OF reachable_delivering ph, of counting_round "vote []"] cr
  have 2: "Period_deliver_tx counting_round (period_delivering 1) (vote []) =
      (Inr False, period_delivering 1)"
    by (simp add: counting_round_check)
  from deliver_tx_verdict [OF reachable_delivering ph, of counting_round "tagged ''transaction'' ''a''"]
    cr
  have 3: "Period_deliver_tx counting_round (period_delivering 1) (tagged ''transaction'' ''a'') =
      (Inl (AttributeError ''payload''), (period_delivering 1)\<lparr>current_round := Some 0\<rparr>)"
    by (simp add: counting_round_check)
  from 1 2 3 show ?thesis
    by (simp add: period_delivering_eq BlockBuilder_add_transaction_def)
qed

text \<open>
  The verdict of \<^verbatim>\<open>check_transaction\<close> is true, and \<^verbatim>\<open>deliver_tx\<close> raises instead
  of returning it: the round has no method to apply the payload. The transaction is not
  appended.
\<close>

theorem deliver_tx_verdict_counterexample:
  "block_construction_phase (period_delivering 1) = WAITING_FOR_DELIVER_TX \<and>
   current_round (period_delivering 1) = Some 0 \<and>
   AbstractRound_check_transaction checking_only_round 0 (vote ''a'') = (Inr True, 0) \<and>
   Period_deliver_tx checking_only_round (period_delivering 1) (vote ''a'') =
     (Inl (ValueError ''request not recognized''), period_delivering 1)"
  by (simp add: period_delivering_eq Period_deliver_tx_def Period_current_round_def
      checking_only_round_vote)

text \<open>
  Claim C2. For every period in phase \<^verbatim>\<open>WAITING_FOR_COMMIT\<close> whose builder yields a
  block that \<^verbatim>\<open>add_block\<close> refuses, \<^verbatim>\<open>commit\<close> raises that \<^verbatim>\<open>AddBlockError\<close>
  and leaves the period as it was: the phase is still \<^verbatim>\<open>WAITING_FOR_COMMIT\<close>, the
  blockchain has no new block, and the current round, the previous rounds and the results
  are not updated.
\<close>

theorem commit_add_block_error:
  assumes "block_construction_phase p = WAITING_FOR_COMMIT"
    and "BlockBuilder_get_block (block_builder p) = Inr b"
    and "Blockchain_add_block (blockchain p) b = (Inl e, c)"
  shows "Period_commit cls p = (Inl e, p) \<and>
         e = AddBlockError (Blockchain_height (blockchain p)) (height (header b)) \<and>
         block_construction_phase (snd (Period_commit cls p)) = WAITING_FOR_COMMIT \<and>
         blockchain (snd (Period_commit cls p)) = blockchain p \<and>
         current_round (snd (Period_commit cls p)) = current_round p \<and>
         previous_rounds (snd (Period_commit cls p)) = previous_rounds p \<and>
         round_results (snd (Period_commit cls p)) = round_results p"
proof -
  from assms(3) have c: "c = blockchain p"
    and e: "e = AddBlockError (Blockchain_height (blockchain p)) (height (header b))"
    by (auto simp: Blockchain_add_block_def Let_def split: if_splits)
  have "Period_commit cls p = (Inl e, p)"
    using assms c by (simp add: Period_commit_def)
  with e assms(1) show ?thesis by simp
qed

text \<open>A header of height 5 on the empty chain, which expects height 1.\<close>

theorem commit_add_block_error_witness:
  "Period_commit counting_round (period_committing 5) =
     (Inl (AddBlockError 1 5), period_committing 5) \<and>
   block_construction_phase (snd (Period_commit counting_round (period_committing 5))) =
     WAITING_FOR_COMMIT \<and>
   blocks (blockchain (snd (Period_commit counting_round (period_committing 5)))) = [] \<and>
   current_round (snd (Period_commit counting_round (period_committing 5))) = Some 0"
proof -
  let ?b = "\<lparr>header = \<lparr>height = 5\<rparr>, transactions = [] :: nat transaction list\<rparr>"
  have 1: "block_construction_phase (period_committing 5) = WAITING_FOR_COMMIT"
    by (simp add: period_committing_eq)
  have 2: "BlockBuilder_get_block (block_builder (period_committing 5)) = Inr ?b"
    by (simp add: period_committing_eq BlockBuilder_get_block_def BlockBuilder_header_def)
  have 3: "Blockchain_add_block (blockchain (period_committing 5)) ?b =
      (Inl (AddBlockError 1 5), blockchain (period_committing 5))"
    by (simp add: period_committing_eq Blockchain_add_block_def Blockchain_height_def
        Blockchain_length_def)
  from commit_add_block_error [OF 1 2 3, of counting_round]
  show ?thesis by (simp add: period_committing_eq)
qed

text \<open>
  Claim C3, amended. For every period and each of the four entry points, a call in a
  phase other than the matching one (\<^verbatim>\<open>begin_block\<close>: \<^verbatim>\<open>WAITING_FOR_BEGIN_BLOCK\<close>;
  \<^verbatim>\<open>deliver_tx\<close> and \<^verbatim>\<open>end_block\<close>: \<^verbatim>\<open>WAITING_FOR_DELIVER_TX\<close>;
  \<^verbatim>\<open>commit\<close>: \<^verbatim>\<open>WAITING_FOR_COMMIT\<close>) raises the \<^verbatim>\<open>ValueError\<close> of the phase
  mismatch and leaves the period unchanged: two phases for each entry point, 8 of the 12
  combinations. \<^verbatim>\<open>begin_block\<close> on a finished period raises the \<^verbatim>\<open>ValueError\<close> of
  the finished period.
\<close>

theorem period_phase_mismatch:
  assumes "reachable cls p"
  shows "(block_construction_phase p \<noteq> WAITING_FOR_BEGIN_BLOCK \<longrightarrow>
            Period_begin_block p h =
              (Inl (ValueError ''cannot accept a 'begin_block' request.''), p)) \<and>
         (block_construction_phase p \<noteq> WAITING_FOR_DELIVER_TX \<longrightarrow>
            Period_deliver_tx cls p tx =
              (Inl (ValueError ''cannot accept a 'deliver_tx' request.''), p) \<and>
            Period_end_block p =
              (Inl (ValueError ''cannot accept a 'end_block' request.''), p)) \<and>
         (block_construction_phase p \<noteq> WAITING_FOR_COMMIT \<longrightarrow>
            Period_commit cls p =
              (Inl (ValueError ''cannot accept a 'commit' request.''), p)) \<and>
         (Period_is_finished p \<longrightarrow>
            Period_begin_block p h =
              (Inl (ValueError ''period is finished, cannot accept new blocks''), p))"
proof -
  have "block_construction_phase p \<noteq> WAITING_FOR_BEGIN_BLOCK \<Longrightarrow> \<not> Period_is_finished p"
    using reachable_has_round [OF assms] by (simp add: Period_is_finished_def)
  then show ?thesis
    by (auto simp: Period_begin_block_def Period_deliver_tx_def Period_end_block_def
        Period_commit_def)
qed

text \<open>The theorem at a period that is delivering, one that is committing and a fresh one.\<close>

theorem period_phase_mismatch_witness:
  "Period_begin_block (period_delivering 1) \<lparr>height = 1\<rparr> =
     (Inl (ValueError ''cannot accept a 'begin_block' request.''), period_delivering 1) \<and>
   Period_commit counting_round (period_delivering 1) =
     (Inl (ValueError ''cannot accept a 'commit' request.''), period_delivering 1) \<and>
   Period_deliver_tx counting_round (period_committing 1) (vote ''a'') =
     (Inl (ValueError ''cannot accept a 'deliver_tx' request.''), period_committing 1) \<and>
   Period_end_block (period_committing 1) =
     (Inl (ValueError ''cannot accept a 'end_block' request.''), period_committing 1) \<and>
   Period_begin_block (Period_init :: (nat, nat, unit) period) \<lparr>height = 1\<rparr> =
     (Inl (ValueError ''period is finished, cannot accept new blocks''), Period_init)"
proof -
  have d: "block_construction_phase (period_delivering 1) = WAITING_FOR_DELIVER_TX"
    by (simp add: period_delivering_eq)
  have c: "block_construction_phase (period_committing 1) = WAITING_FOR_COMMIT"
    by (simp add: period_committing_eq)
  have f: "Period_is_finished (Period_init :: (nat, nat, unit) period)"
    by (simp add: Period_is_finished_def Period_init_def)
  from period_phase_mismatch [where cls = counting_round and p = "period_delivering 1"
        and h = "\<lparr>height = 1\<rparr>" and tx = "vote ''a''", OF reachable_delivering]
    period_phase_mismatch [where cls = counting_round and p = "period_committing 1"
        and h = "\<lparr>height = 1\<rparr>" and tx = "vote ''a''", OF reachable_committing]
    period_phase_mismatch [where cls = counting_round and p = Period_init
        and h = "\<lparr>height = 1\<rparr>" and tx = "vote ''a''", OF reachable.fresh]
    d c f
  show ?thesis by simp
qed

text \<open>
  The claim counts 9 failing combinations of the 12. The four matching ones succeed on
  these periods, one in each phase, which leaves 8.
\<close>

theorem period_nine_of_twelve_counterexample:
  "block_construction_phase period_started = WAITING_FOR_BEGIN_BLOCK \<and>
   fst (Period_begin_block period_started \<lparr>height = 1\<rparr>) = Inr () \<and>
   block_construction_phase (period_delivering 1) = WAITING_FOR_DELIVER_TX \<and>
   fst (Period_deliver_tx counting_round (period_delivering 1) (vote ''a'')) = Inr True \<and>
   fst (Period_end_block (period_delivering 1)) = Inr () \<and>
   block_construction_phase (period_committing 1) = WAITING_FOR_COMMIT \<and>
   fst (Period_commit counting_round (period_committing 1)) = Inr ()"
  by (simp add: period_committing_eq period_delivering_eq period_started_def period_defs
      counting_round_check counting_round_process counting_round_end_block Let_def
      BlockBuilder_get_block_def BlockBuilder_header_def
      Blockchain_add_block_def Blockchain_height_def Blockchain_length_def
      BlockBuilder_reset_def BlockBuilder_set_header_def BlockBuilder_init_def Blockchain_init_def)

section \<open>AbstractRound: processing a transaction\<close>

text \<open>
  Claim C5, amended. \<^verbatim>\<open>process_transaction\<close> first looks up the attribute of the
  round that the payload's tag names and, when there is none, raises the \<^verbatim>\<open>ValueError\<close>
  of an unknown transaction type, whatever \<^verbatim>\<open>check_transaction\<close> would say, as for a
  tag with no registered handler at all; the round is unchanged. Otherwise it runs
  \<^verbatim>\<open>check_transaction\<close> again: an exception of the check is raised on, a false
  verdict raises \<^verbatim>\<open>TransactionNotValidError\<close>, and on a true verdict the attribute
  found is called with the payload. On both failures \<^verbatim>\<open>process_transaction\<close> itself
  changes nothing: the round is as the check left it.
\<close>

theorem process_transaction_errors:
  "(AbstractRound_getattr cls r (transaction_type (payload tx)) = None \<longrightarrow>
      AbstractRound_process_transaction cls r tx =
        (Inl (ValueError ''request not recognized''), r)) \<and>
   (AbstractRound_getattr cls r (''check_'' @ transaction_type (payload tx)) = None \<longrightarrow>
    AbstractRound_getattr cls r (transaction_type (payload tx)) = None \<longrightarrow>
      AbstractRound_check_transaction cls r tx = (Inr False, r) \<and>
      AbstractRound_process_transaction cls r tx =
        (Inl (ValueError ''request not recognized''), r)) \<and>
   (\<forall>h. AbstractRound_getattr cls r (transaction_type (payload tx)) = Some h \<longrightarrow>
      (\<forall>e r1. AbstractRound_check_transaction cls r tx = (Inl e, r1) \<longrightarrow>
         AbstractRound_process_transaction cls r tx = (Inl e, r1)) \<and>
      (\<forall>r1. AbstractRound_check_transaction cls r tx = (Inr False, r1) \<longrightarrow>
         AbstractRound_process_transaction cls r tx =
           (Inl (TransactionNotValidError ''transaction not valid''), r1)) \<and>
      (\<forall>r1. AbstractRound_check_transaction cls r tx = (Inr True, r1) \<longrightarrow>
         AbstractRound_process_transaction cls r tx =
           (case h r1 (payload tx) of
              (Inl e, r2) \<Rightarrow> (Inl e, r2)
            | (Inr v, r2) \<Rightarrow> (Inr (), r2))))"
  by (auto simp: AbstractRound_process_transaction_def AbstractRound_check_transaction_def)

text \<open>
  The counting round after three votes: an unknown tag, a vote that the check refuses,
  a vote that is applied, a payload tagged \<^verbatim>\<open>transaction\<close>, which has no attribute
  of that name to apply it, and a payload tagged \<^verbatim>\<open>end_block\<close>, for which the lookup
  finds the method \<^verbatim>\<open>end_block\<close> and the check finds nothing.
\<close>

theorem process_transaction_errors_witness:
  "AbstractRound_process_transaction counting_round 3 (ballot ''a'') =
     (Inl (ValueError ''request not recognized''), 3) \<and>
   AbstractRound_process_transaction counting_round 3 (vote []) =
     (Inl (TransactionNotValidError ''transaction not valid''), 3) \<and>
   AbstractRound_process_transaction counting_round 3 (vote ''a'') = (Inr (), 4) \<and>
   AbstractRound_process_transaction counting_round 3 (tagged ''transaction'' ''a'') =
     (Inl (ValueError ''request not recognized''), 3) \<and>
   AbstractRound_process_transaction counting_round 3 (tagged ''end_block'' ''a'') =
     (Inl (TransactionNotValidError ''transaction not valid''), 3)"
proof -
  have 1: "AbstractRound_getattr counting_round 3 (transaction_type (payload (ballot ''a''))) = None"
    and 2: "AbstractRound_getattr counting_round 3
        (transaction_type (payload (tagged ''transaction'' ''a''))) = None"
    and 3: "AbstractRound_getattr counting_round 3 (transaction_type (payload (vote []))) =
        Some (\<lambda>r p. (Inr False, Suc r))"
    and 4: "AbstractRound_getattr counting_round 3 (transaction_type (payload (vote ''a''))) =
        Some (\<lambda>r p. (Inr False, Suc r))"
    and 5: "AbstractRound_getattr counting_round 3
        (transaction_type (payload (tagged ''end_block'' ''a''))) =
        Some (\<lambda>r p. (Inl (TypeError ''end_block''), r))"
    by (simp_all add: example_tags counting_round_getattr)
  from process_transaction_errors [of counting_round 3 "ballot ''a''"]
    process_transaction_errors [of counting_round 3 "tagged ''transaction'' ''a''"]
    process_transaction_errors [of counting_round 3 "vote []"]
    process_transaction_errors [of counting_round 3 "vote ''a''"]
    process_transaction_errors [of counting_round 3 "tagged ''end_block'' ''a''"]
    1 2 3 4 5
  show ?thesis by (simp add: counting_round_check)
qed

text \<open>
  \<^verbatim>\<open>check_transaction\<close> is false, and the error is not
  \<^verbatim>\<open>TransactionNotValidError\<close>: the round has a \<^verbatim>\<open>check_vote\<close> that refuses and no
  \<^verbatim>\<open>vote\<close>, and the lookup of the handler comes before the check.
\<close>

theorem process_transaction_errors_counterexample:
  "AbstractRound_check_transaction rejecting_only_round 0 (vote ''a'') = (Inr False, 0) \<and>
   AbstractRound_process_transaction rejecting_only_round 0 (vote ''a'') =
     (Inl (ValueError ''request not recognized''), 0)"
  by (simp add: rejecting_only_round_vote)

section \<open>ConsensusParams: the two-thirds threshold\<close>

text \<open>Evaluating \<open>bit_length\<close> on a numeral, one binary digit at a time.\<close>

lemma bit_length_numeral [simp]:
  "bit_length (numeral (Num.Bit0 k)) = Suc (bit_length (numeral k))"
  "bit_length (numeral (Num.Bit1 k)) = Suc (bit_length (numeral k))"
  "bit_length (numeral Num.One) = 1"
  "bit_length 0 = 0"
  "bit_length (Suc 0) = 1"
proof -
  show "bit_length (numeral (Num.Bit0 k)) = Suc (bit_length (numeral k))"
    by (subst bit_length.simps) simp
  show "bit_length (numeral (Num.Bit1 k)) = Suc (bit_length (numeral k))"
    by (subst bit_length.simps) (simp add: numeral_Bit1_div_2)
  show "bit_length 0 = 0"
    by (simp add: bit_length.simps)
  then show "bit_length (Suc 0) = 1"
    by (subst bit_length.simps) simp
  then show "bit_length (numeral Num.One) = 1"
    by simp
qed

lemma floor_log2_small:
  "floor_log2 2 3 = - 1" "floor_log2 4 3 = 0" "floor_log2 6 3 = 1" "floor_log2 8 3 = 1"
  "floor_log2 10 3 = 1" "floor_log2 12 3 = 2" "floor_log2 14 3 = 2"
  by (simp_all add: floor_log2_def Let_def)

lemma floor_log2_large: "floor_log2 13510798882111492 3 = 52"
  by (simp add: floor_log2_def Let_def)

text \<open>
  Below \<open>3 * 2 ^ 51\<close> participants the float keeps at least one binary digit after
  the point: the rounded quotient is within a quarter of the exact one, which is an integer
  or at least a third away from one, and the ceiling of the float is the exact ceiling.
\<close>

lemma bit_length_bounds: "0 < n \<Longrightarrow> n < 2 ^ bit_length n \<and> 2 ^ bit_length n \<le> 2 * n"
proof (induction n rule: bit_length.induct)
  case (1 n)
  show ?case
  proof (cases "n div 2 = 0")
    case True
    with "1.prems" have "n = 1" by linarith
    then show ?thesis by (simp add: bit_length.simps)
  next
    case False
    then have pos: "0 < n div 2" by simp
    from "1.IH" [OF _ pos] "1.prems"
    have ih: "n div 2 < 2 ^ bit_length (n div 2)" "2 ^ bit_length (n div 2) \<le> 2 * (n div 2)"
      by simp_all
    have bl: "bit_length n = Suc (bit_length (n div 2))"
      using "1.prems" by (subst bit_length.simps) simp
    from ih show ?thesis unfolding bl by (simp, linarith)
  qed
qed

lemma bit_length_3: "bit_length 3 = 2"
  by (simp add: bit_length.simps)

lemma floor_log2_range:
  assumes "2 \<le> x" "x < 3 * 2 ^ 52"
  shows "- 1 \<le> floor_log2 x 3 \<and> floor_log2 x 3 \<le> 51"
proof -
  from assms have "0 < x" by simp
  from bit_length_bounds [OF this]
  have up: "x < 2 ^ bit_length x" and lo: "2 ^ bit_length x \<le> 2 * x" by simp_all
  have "(2::nat) ^ 1 < 2 ^ bit_length x" using assms up by simp
  then have ge: "1 < bit_length x" by (simp only: power_strict_increasing_iff)
  have "(2::nat) ^ bit_length x < 2 ^ 55" using assms lo by simp
  then have le: "bit_length x < 55" by (simp only: power_strict_increasing_iff)
  define d where "d = bit_length x - 2"
  have d: "int (bit_length x) - int (bit_length 3) = int d" "d \<le> 52"
    using ge le by (simp_all add: d_def bit_length_3)
  have "\<not> 3 * 2 ^ d \<le> x" if "d = 52"
    using that assms by simp
  then show ?thesis
    unfolding floor_log2_def d Let_def using d(2) by (cases "d = 52") auto
qed

lemma round_half_even_near:
  assumes "0 < d"
  shows "2 * \<bar>d * round_half_even n d - n\<bar> \<le> d"
proof -
  define q r where "q = n div d" and "r = n mod d"
  have n: "n = d * q + r" and r: "0 \<le> r" "r < d"
    using assms by (simp_all add: q_def r_def)
  have 1: "d * (q + 1) = d * q + d" by (simp add: algebra_simps)
  have m: "round_half_even n d =
      (if 2 * r < d then q else if d < 2 * r then q + 1 else if even q then q else q + 1)"
    by (simp add: round_half_even_def Let_def q_def r_def)
  show ?thesis
    unfolding m using n r 1 by (auto simp: abs_if)
qed

lemma neg_div_neg_eq:
  fixes m P c :: int
  assumes "0 < P" "(c - 1) * P < m" "m \<le> c * P"
  shows "- ((- m) div P) = c"
proof -
  have "- m = P * (- c) + (c * P - m)" by (simp add: algebra_simps)
  moreover have "0 \<le> c * P - m" using assms by simp
  moreover have "c * P - m < P" using assms by (simp add: algebra_simps)
  ultimately have "(- m) div P = - c" by (rule int_div_pos_eq)
  then show ?thesis by simp
qed

lemma two_thirds_threshold_exact:
  assumes "0 \<le> n" "n < 3 * 2 ^ 51"
  shows "two_thirds_threshold \<lparr>max_participants = n\<rparr> = Inr \<lceil>2 * real_of_int n / 3\<rceil>"
proof (cases "n = 0")
  case True
  then show ?thesis
    by (simp add: two_thirds_threshold_def int_true_divide_def math_ceil_def)
next
  case False
  define a where "a = n * 2"
  define x where "x = nat \<bar>a\<bar>"
  from False assms have a: "0 < a" "a < 3 * 2 ^ 52" "2 \<le> a"
    by (simp_all add: a_def)
  then have x: "int x = a" "2 \<le> x" "x < 3 * 2 ^ 52"
    by (simp_all add: x_def nat_less_iff nat_le_iff)
  define fl where "fl = floor_log2 x 3"
  from floor_log2_range [OF x(2,3)] have fl: "- 1 \<le> fl" "fl \<le> 51"
    by (simp_all add: fl_def)
  define k where "k = nat (52 - fl)"
  define P :: int where "P = 2 ^ k"
  have k: "1 \<le> k" using fl by (simp add: k_def)
  have "(2::int) ^ 1 \<le> 2 ^ k" using k by (simp only: power_increasing_iff)
  then have P: "2 \<le> P" by (simp add: P_def)
  define m where "m = round_half_even (a * P) 3"
  have e: "max (fl - 52) (- 1074) = fl - 52" "(0 \<le> fl - 52) = False"
    "nat (- (fl - 52)) = k" "(971 < fl - 52) = False" "(fl - 52 = 971) = False"
    using fl by (simp_all add: k_def)
  have xa: "nat \<bar>a\<bar> = x" "nat \<bar>3 :: int\<bar> = 3" "floor_log2 x 3 = fl"
    by (simp_all add: x_def fl_def)
  have sg: "sgn a * sgn (3 :: int) = 1" "(a = 0) = False"
    using a by simp_all
  have div: "int_true_divide a 3 = Inr \<lparr>significand = m, exponent = fl - 52\<rparr>"
    unfolding int_true_divide_def Let_def xa e sg
    by (simp add: x(1) m_def P_def)
  have ceil: "math_ceil \<lparr>significand = m, exponent = fl - 52\<rparr> = - ((- m) div P)"
    using fl by (simp add: math_ceil_def P_def k_def)
  define C where "C = \<lceil>2 * real_of_int n / 3\<rceil>"
  have "real_of_int C - 1 < real_of_int a / 3" "real_of_int a / 3 \<le> real_of_int C"
    unfolding C_def a_def by (simp_all add: mult.commute) linarith+
  then have "real_of_int (3 * (C - 1)) < real_of_int a" "real_of_int a \<le> real_of_int (3 * C)"
    by simp_all
  then have C: "3 * (C - 1) < a" "a \<le> 3 * C"
    by (simp_all only: of_int_less_iff of_int_le_iff)
  define A U where "A = a * P" and "U = C * P"
  have near: "\<bar>3 * m - A\<bar> \<le> 1"
    using round_half_even_near [of 3 "a * P"] by (simp add: m_def A_def)
  have "a * P \<le> (3 * C) * P"
    using C(2) P by (intro mult_right_mono) simp_all
  then have up: "A \<le> 3 * U"
    by (simp add: A_def U_def algebra_simps)
  have "(3 * (C - 1) + 1) * P \<le> a * P"
    using C(1) P by (intro mult_right_mono) simp_all
  then have lo: "3 * U - 2 * P \<le> A"
    by (simp add: A_def U_def algebra_simps)
  have "U - P < m" "m \<le> U"
    using near up lo P by linarith+
  then have "(C - 1) * P < m" "m \<le> C * P"
    by (simp_all add: U_def algebra_simps)
  with P have "- ((- m) div P) = C"
    by (intro neg_div_neg_eq) simp_all
  with div ceil show ?thesis
    by (simp add: two_thirds_threshold_def a_def C_def)
qed

text \<open>
  Claim C6, on the code. For 0 to 7 participants the threshold is 0, 1, 2, 2, 3, 4, 4, 5.
  For 6755399441055746 participants the exact quotient \<open>2 n / 3\<close> is
  \<open>2 ^ 52 + 4 / 3\<close>, the nearest float is \<open>2 ^ 52 + 1\<close>, and the threshold is
  4503599627370497, one less than the ceiling of the exact quotient, 4503599627370498.
\<close>

theorem two_thirds_threshold_float:
  "map (\<lambda>n. two_thirds_threshold \<lparr>max_participants = n\<rparr>) [0, 1, 2, 3, 4, 5, 6, 7] =
     map Inr [0, 1, 2, 2, 3, 4, 4, 5] \<and>
   two_thirds_threshold \<lparr>max_participants = 6755399441055746\<rparr> = Inr 4503599627370497 \<and>
   \<lceil>2 * (6755399441055746 :: real) / 3\<rceil> = 4503599627370498"
  by (simp add: two_thirds_threshold_def int_true_divide_def floor_log2_small floor_log2_large
      round_half_even_def math_ceil_def Let_def)

section \<open>The payload registry: registration and lookup\<close>

text \<open>
  Claim C7. Registering a tag that is bound to a different class raises the
  \<^verbatim>\<open>ValueError\<close> of the duplicate tag and leaves the registry unchanged; registering a
  tag with the class it is bound to succeeds and leaves the registry unchanged; the lookup
  of a tag that is not bound raises \<^verbatim>\<open>KeyError\<close>.
\<close>

theorem registry_register_lookup:
  "(reg tag = Some previous \<longrightarrow> cls_id new_cls \<noteq> cls_id previous \<longrightarrow>
      register reg tag new_cls = (Inl (ValueError ''transaction type already used''), reg)) \<and>
   (reg tag = Some new_cls \<longrightarrow> register reg tag new_cls = (Inr (), reg)) \<and>
   (reg tag = None \<longrightarrow> lookup reg tag = Inl (KeyError tag))"
  by (auto simp: register_def MetaPayload_validate_transaction_type_def lookup_def
      fun_upd_idem_iff)

text \<open>A registry that binds \<^verbatim>\<open>vote\<close>.\<close>

theorem registry_register_lookup_witness:
  "register [''vote'' \<mapsto> vote_payload_class] ''vote'' other_vote_payload_class =
     (Inl (ValueError ''transaction type already used''), [''vote'' \<mapsto> vote_payload_class]) \<and>
   register [''vote'' \<mapsto> vote_payload_class] ''vote'' vote_payload_class =
     (Inr (), [''vote'' \<mapsto> vote_payload_class]) \<and>
   lookup [''vote'' \<mapsto> vote_payload_class] ''ballot'' = Inl (KeyError ''ballot'')"
proof -
  have 1: "[''vote'' \<mapsto> vote_payload_class] ''vote'' = Some vote_payload_class"
    and 2: "cls_id other_vote_payload_class \<noteq> cls_id vote_payload_class"
    and 3: "[''vote'' \<mapsto> vote_payload_class] ''ballot'' = None"
    by (simp_all add: other_vote_payload_class_def vote_payload_class_def)
  from registry_register_lookup [of "[''vote'' \<mapsto> vote_payload_class]" "''vote''"
      vote_payload_class other_vote_payload_class]
    registry_register_lookup [of "[''vote'' \<mapsto> vote_payload_class]" "''vote''"
      vote_payload_class vote_payload_class]
    registry_register_lookup [of "[''vote'' \<mapsto> vote_payload_class]" "''ballot''"
      vote_payload_class vote_payload_class]
    1 2 3
  show ?thesis by simp
qed

text \<open>
  Claim C9, amended. The construction of a payload class that the metaclass registers
  (its module is not under \<^verbatim>\<open>packages.\<close> and \<^verbatim>\<open>ABC\<close> is not among its bases) and
  that has no attribute \<^verbatim>\<open>transaction_type\<close> aborts: with \<^verbatim>\<open>AttributeError\<close>, raised
  by \<^verbatim>\<open>getattr\<close> inside the guard of \<^verbatim>\<open>_get_field\<close>, for a subclass of
  \<^verbatim>\<open>BaseTxPayload\<close>, and with the \<^verbatim>\<open>ValueError\<close> of the inheritance check otherwise.
  The registry is unchanged.
\<close>

theorem undeclared_transaction_type:
  assumes "\<not> prefix ''packages.'' (cls_module new_cls)"
    and "\<not> abc_in_bases new_cls"
    and "cls_attrs new_cls ''transaction_type'' = None"
  shows "MetaPayload_new reg new_cls =
     (Inl (if subclass_of_BaseTxPayload new_cls
           then AttributeError ''transaction_type''
           else ValueError ''class must inherit from BaseTxPayload''), reg)"
  using assms by (simp add: MetaPayload_new_def MetaPayload_get_field_def hasattr_def getattr_def)

text \<open>The untagged class, defined outside \<^verbatim>\<open>packages.\<close>\<close>

theorem undeclared_transaction_type_witness:
  "MetaPayload_new [''vote'' \<mapsto> vote_payload_class] untagged_payload_class =
     (Inl (AttributeError ''transaction_type''), [''vote'' \<mapsto> vote_payload_class])"
proof -
  have 1: "\<not> prefix ''packages.'' (cls_module untagged_payload_class)"
    and 2: "\<not> abc_in_bases untagged_payload_class"
    and 3: "cls_attrs untagged_payload_class ''transaction_type'' = None"
    and 4: "subclass_of_BaseTxPayload untagged_payload_class"
    by (simp_all add: untagged_payload_class_def)
  from undeclared_transaction_type [OF 1 2 3, of "[''vote'' \<mapsto> vote_payload_class]"] 4
  show ?thesis by simp
qed

text \<open>
  The same concrete class in a module under \<^verbatim>\<open>packages.\<close> is constructed without an
  error: the metaclass returns before it reads the tag.
\<close>

theorem undeclared_transaction_type_counterexample:
  "\<not> abc_in_bases packaged_payload_class \<and>
   subclass_of_BaseTxPayload packaged_payload_class \<and>
   cls_attrs packaged_payload_class ''transaction_type'' = None \<and>
   fst (MetaPayload_new Map.empty packaged_payload_class) = Inr packaged_payload_class"
  by (simp add: MetaPayload_new_def packaged_payload_class_def untagged_payload_class_def)

section \<open>BasePeriodState: update\<close>

text \<open>What a dictionary holds after items were stored in it.\<close>

lemma dict_update_Cons:
  "dict_update d ((k, v) # items) = dict_update (AList.update k v d) items"
  by (simp add: dict_update_def)

lemma keys_dict_update: "fst ` set (dict_update d items) = fst ` set d \<union> fst ` set items"
proof (induction items arbitrary: d)
  case Nil
  then show ?case by (simp add: dict_update_def)
next
  case (Cons kv items)
  obtain k v where kv: "kv = (k, v)" by (cases kv)
  show ?case
    unfolding kv dict_update_Cons Cons.IH by (auto simp: AList.dom_update)
qed

lemma map_of_dict_update:
  "distinct (map fst items) \<Longrightarrow> map_of (dict_update d items) = map_of d ++ map_of items"
proof (induction items arbitrary: d)
  case Nil
  then show ?case by (simp add: dict_update_def)
next
  case (Cons kv items)
  obtain k v where kv: "kv = (k, v)" by (cases kv)
  from Cons.prems kv have k: "k \<notin> fst ` set items" and d: "distinct (map fst items)"
    by auto
  from k have "map_of items k = None"
    by (simp add: map_of_eq_None_iff)
  then have swap: "(map_of d)(k \<mapsto> v) ++ map_of items = (map_of d ++ map_of items)(k \<mapsto> v)"
    by (auto simp: map_add_def fun_eq_iff split: option.splits)
  have "map_of (dict_update d (kv # items)) = (map_of d)(k \<mapsto> v) ++ map_of items"
    unfolding kv dict_update_Cons Cons.IH [OF d] by (simp only: AList.update_conv')
  also note swap
  also have "(map_of d ++ map_of items)(k \<mapsto> v) = map_of d ++ map_of (kv # items)"
    unfolding kv by (simp only: map_of.simps fst_conv snd_conv map_add_upd)
  finally show ?case .
qed

lemma map_of_underscored:
  "map_of (map (\<lambda>k. (CHR ''_'' # k, g k)) ps) (CHR ''_'' # k) =
     (if k \<in> set ps then Some (g k) else None)"
  by (induction ps) auto

lemma map_of_keyed:
  "map_of (dict_update [] (map (\<lambda>k. (k, g k)) ps)) k = (if k \<in> set ps then Some (g k) else None)"
proof -
  have "map_of (dict_update d (map (\<lambda>k. (k, g k)) ps)) k =
      (if k \<in> set ps then Some (g k) else map_of d k)" for d
  proof (induction ps arbitrary: d)
    case Nil
    then show ?case by (simp add: dict_update_def)
  next
    case (Cons p ps)
    show ?case
      by (simp add: dict_update_Cons Cons.IH AList.update_conv')
  qed
  then show ?thesis by simp
qed

lemma construct_ok:
  "fst ` set kwargs \<subseteq> set ps \<Longrightarrow>
   construct ps kwargs =
     Inr \<lparr>state_params = ps,
          state_dict = map (\<lambda>k. (CHR ''_'' # k,
                            case map_of kwargs k of None \<Rightarrow> None | Some v \<Rightarrow> v)) ps\<rparr>"
proof -
  assume "fst ` set kwargs \<subseteq> set ps"
  then have "filter (\<lambda>k. k \<notin> set ps) (map fst kwargs) = []"
    by (auto simp: filter_empty_conv)
  then show ?thesis by (simp add: construct_def)
qed

lemma construct_fails:
  "\<not> fst ` set kwargs \<subseteq> set ps \<Longrightarrow>
   \<exists>k. k \<in> fst ` set kwargs \<and> k \<notin> set ps \<and> construct ps kwargs = Inl (TypeError k)"
proof -
  assume "\<not> fst ` set kwargs \<subseteq> set ps"
  then have "filter (\<lambda>k. k \<notin> set ps) (map fst kwargs) \<noteq> []"
    by (auto simp: filter_empty_conv)
  then obtain k ks where f: "filter (\<lambda>k. k \<notin> set ps) (map fst kwargs) = k # ks"
    by (cases "filter (\<lambda>k. k \<notin> set ps) (map fst kwargs)") auto
  then have "k \<in> set (filter (\<lambda>k. k \<notin> set ps) (map fst kwargs))" by simp
  then have "k \<in> fst ` set kwargs" "k \<notin> set ps" by auto
  with f show ?thesis by (auto simp: construct_def)
qed

lemma construct_shape:
  "construct ps kw = Inr x \<Longrightarrow>
   state_params x = ps \<and>
   state_dict x = map (\<lambda>k. (CHR ''_'' # k,
                            case map_of kw k of None \<Rightarrow> None | Some v \<Rightarrow> v)) ps"
  by (auto simp: construct_def split: list.splits)

text \<open>
  Claim C8, amended. For every state \<open>x\<close> that the constructor of its class built and
  all overrides \<open>ov\<close>: if every key of \<open>ov\<close> is a parameter of that constructor,
  \<^verbatim>\<open>x.update(**ov)\<close> returns a state of the same class, with the same attributes, that
  equals \<open>ov\<close> on every field in \<open>ov\<close> and \<open>x\<close> on every other field; if some key
  of \<open>ov\<close> is not, it raises \<^verbatim>\<open>TypeError\<close> for such a key. The call computes its
  result from \<open>x\<close> and assigns nothing to it.
\<close>

theorem update_overrides:
  assumes x: "construct ps kw = Inr x"
    and ov: "distinct (map fst ov)"
  shows "(fst ` set ov \<subseteq> set ps \<longrightarrow>
           (\<exists>y. BasePeriodState_update x ov = Inr y \<and>
                state_params y = state_params x \<and>
                map fst (state_dict y) = map fst (state_dict x) \<and>
                (\<forall>k \<in> set ps. field y k =
                   (case map_of ov k of Some v \<Rightarrow> Some v | None \<Rightarrow> field x k)))) \<and>
         (\<not> fst ` set ov \<subseteq> set ps \<longrightarrow>
           (\<exists>k. k \<in> fst ` set ov \<and> k \<notin> set ps \<and>
                BasePeriodState_update x ov = Inl (TypeError k)))"
proof -
  define g where "g k = (case map_of kw k of None \<Rightarrow> None | Some v \<Rightarrow> v)" for k
  from construct_shape [OF x] have px: "state_params x = ps"
    and dx: "state_dict x = map (\<lambda>k. (CHR ''_'' # k, g k)) ps"
    by (simp_all add: g_def)
  define data0 where "data0 = dict_update [] (map (\<lambda>k. (k, g k)) ps)"
  define data where "data = dict_update data0 ov"
  have upd: "BasePeriodState_update x ov = construct ps data"
    by (simp add: BasePeriodState_update_def Let_def px dx data_def data0_def comp_def)
  have m0: "map_of data0 k = (if k \<in> set ps then Some (g k) else None)" for k
    unfolding data0_def by (rule map_of_keyed)
  have keys0: "fst ` set data0 = set ps"
    unfolding data0_def keys_dict_update by (auto simp: image_image)
  have keys: "fst ` set data = set ps \<union> fst ` set ov"
    unfolding data_def keys_dict_update keys0 ..
  have m: "map_of data k = (case map_of ov k of Some v \<Rightarrow> Some v | None \<Rightarrow> map_of data0 k)" for k
    unfolding data_def map_of_dict_update [OF ov] by (simp add: map_add_def)
  have fx: "field x k = (if k \<in> set ps then Some (g k) else None)" for k
    by (simp add: field_def dx map_of_underscored)
  show ?thesis
  proof (intro conjI impI)
    assume sub: "fst ` set ov \<subseteq> set ps"
    then have "fst ` set data \<subseteq> set ps" using keys by auto
    define y where "y = \<lparr>state_params = ps,
        state_dict = map (\<lambda>k. (CHR ''_'' # k,
                            case map_of data k of None \<Rightarrow> None | Some v \<Rightarrow> v)) ps\<rparr>"
    from construct_ok [OF \<open>fst ` set data \<subseteq> set ps\<close>] upd
    have y: "BasePeriodState_update x ov = Inr y"
      by (simp add: y_def)
    have py: "state_params y = ps"
      and dy: "state_dict y = map (\<lambda>k. (CHR ''_'' # k,
                            case map_of data k of None \<Rightarrow> None | Some v \<Rightarrow> v)) ps"
      by (simp_all add: y_def)
    have "field y k = (case map_of ov k of Some v \<Rightarrow> Some v | None \<Rightarrow> field x k)"
      if "k \<in> set ps" for k
    proof -
      have "field y k = Some (case map_of data k of None \<Rightarrow> None | Some v \<Rightarrow> v)"
        using that by (simp add: field_def dy map_of_underscored)
      then show ?thesis
        using that by (simp add: m m0 fx split: option.splits)
    qed
    with y py px dy dx show "\<exists>y. BasePeriodState_update x ov = Inr y \<and>
                state_params y = state_params x \<and>
                map fst (state_dict y) = map fst (state_dict x) \<and>
                (\<forall>k \<in> set ps. field y k =
                   (case map_of ov k of Some v \<Rightarrow> Some v | None \<Rightarrow> field x k))"
      by (simp add: comp_def)
  next
    assume "\<not> fst ` set ov \<subseteq> set ps"
    then have "\<not> fst ` set data \<subseteq> set ps" using keys by auto
    from construct_fails [OF this] obtain k where
      "k \<in> fst ` set data" "k \<notin> set ps" "construct ps data = Inl (TypeError k)"
      by blast
    with keys upd show "\<exists>k. k \<in> fst ` set ov \<and> k \<notin> set ps \<and>
                BasePeriodState_update x ov = Inl (TypeError k)"
      by auto
  qed
qed

text \<open>Overriding \<^verbatim>\<open>keeper\<close>, and overriding a field the state does not have.\<close>

theorem update_overrides_witness:
  "(\<exists>y. BasePeriodState_update keeper_state [(''keeper'', Some ''a'')] = Inr y \<and>
        field y ''keeper'' = Some (Some ''a'') \<and>
        field y ''participants'' = Some (Some ''ab'')) \<and>
   (\<exists>k. BasePeriodState_update keeper_state [(''round'', Some ''r'')] = Inl (TypeError k))"
proof -
  have c: "construct [''participants'', ''keeper''] [(''participants'', Some ''ab'')] =
      Inr keeper_state"
    by (simp add: construct_def keeper_state_def)
  have d1: "distinct (map fst [(''keeper'', Some ''a'')])"
    and d2: "distinct (map fst [(''round'', Some ''r'')])"
    by simp_all
  have fx: "field keeper_state ''participants'' = Some (Some ''ab'')"
    by (simp add: field_def keeper_state_def)
  from update_overrides [OF c d1] fx
  have 1: "\<exists>y. BasePeriodState_update keeper_state [(''keeper'', Some ''a'')] = Inr y \<and>
        field y ''keeper'' = Some (Some ''a'') \<and>
        field y ''participants'' = Some (Some ''ab'')"
    by auto
  from update_overrides [OF c d2]
  have 2: "\<exists>k. BasePeriodState_update keeper_state [(''round'', Some ''r'')] = Inl (TypeError k)"
    by auto
  from 1 2 show ?thesis by simp
qed

text \<open>\<^verbatim>\<open>BasePeriodState\<close> has no parameter \<^verbatim>\<open>keeper\<close>: the update raises.\<close>

theorem update_overrides_counterexample:
  "construct BasePeriodState_params [(''participants'', Some ''ab'')] = Inr base_state \<and>
   BasePeriodState_update base_state [(''keeper'', Some ''a'')] = Inl (TypeError ''keeper'')"
  by (simp add: construct_def base_state_def BasePeriodState_params_def
      BasePeriodState_update_def dict_update_def)

section \<open>Equality of payloads: sender and data\<close>

text \<open>
  Claim C10. \<^verbatim>\<open>p == q\<close> holds for two payloads iff their senders and their data are
  equal; the same holds against any object with the attributes \<^verbatim>\<open>sender\<close> and
  \<^verbatim>\<open>data\<close>, whether it is a payload or not; two payloads that differ in their
  transaction type only are equal.
\<close>

theorem payload_eq_sender_data:
  "BaseTxPayload_eq p (object_of_payload q) = Inr (sender p = sender q \<and> data p = data q) \<and>
   BaseTxPayload_eq p \<lparr>isinstance_BaseTxPayload = b, attr_sender = Some s, attr_data = Some d\<rparr> =
     Inr (sender p = s \<and> data p = d) \<and>
   BaseTxPayload_eq (p\<lparr>transaction_type := t1\<rparr>) (object_of_payload (p\<lparr>transaction_type := t2\<rparr>)) =
     Inr True"
  by (simp add: BaseTxPayload_eq_def object_of_payload_def)

end
